theory Spec2Isabelle
  imports Complex_Main "HOL-Library.Word" "HOL-Library.Sublist"
begin

unbundle bit_operations_syntax

section \<open>Bytes, errors and Go slices\<close>

type_synonym byte = "8 word"

text \<open>
  Every error return and every runtime panic of the Go code is a value of this type.
  \<open>Panic\<close> stands for a Go runtime panic (index or slice bounds out of range).
\<close>

datatype error =
    EOF
  | ErrUnexpectedEOF
  | IOError
  | Panic
  | SessionKeyMustBe32Bytes
  | InvalidFrameType byte
  | DecryptionFailed
  | EncryptedFrameTooLarge
  | DestinationDataTooShort
  | InvalidIPv4Address
  | InvalidIPv6Address
  | InvalidDomainNameLength
  | InvalidDomainName
  | UnknownAddressType
  | UserNotFound
  | TimestampOutOfRange
  | FailedToWriteAuthenticationErrorResponse
  | FailedToWriteTimestampErrorResponse
  | NoFallbackConfigured
  | FailedToConnectToFallbackServer
  | RandError

text \<open>
  \<open>index xs i\<close> is the Go expression \<open>xs[i]\<close> and \<open>slice xs lo hi\<close> is \<open>xs[lo:hi]\<close>.
  Go panics when the index is not below the length; a slice expression panics when the
  bounds are out of order or beyond the capacity. The model checks the upper bound against
  the length, which is never more than the capacity, so a model that does not panic
  describes a program that does not panic.
\<close>

definition index :: "'a list \<Rightarrow> nat \<Rightarrow> error + 'a" where
  "index xs i = (if i < length xs then Inr (xs ! i) else Inl Panic)"

definition slice :: "'a list \<Rightarrow> nat \<Rightarrow> nat \<Rightarrow> error + 'a list" where
  "slice xs lo hi =
     (if lo \<le> hi \<and> hi \<le> length xs then Inr (take (hi - lo) (drop lo xs)) else Inl Panic)"

section \<open>Destination parser (data.go)\<close>

datatype Network = Network_TCP

text \<open>
  The address type of the surrounding framework (package \<open>common/net\<close>, which is not
  among the sources here) has three implementations, told apart by \<open>Family()\<close>: a
  4-byte IPv4 address, a 16-byte IPv6 address and a domain name; a Go string is its
  byte sequence. \<open>nilAddress\<close> is the nil interface value.
\<close>

datatype AddressFamily = AddressFamilyIPv4 | AddressFamilyIPv6 | AddressFamilyDomain

datatype Address =
    ipv4Address "byte list"
  | ipv6Address "byte list"
  | domainAddress "byte list"
  | nilAddress

text \<open>\<open>Family()\<close> on the nil interface is a nil dereference, hence a panic.\<close>

fun Family :: "Address \<Rightarrow> error + AddressFamily" where
  "Family (ipv4Address _) = Inr AddressFamilyIPv4"
| "Family (ipv6Address _) = Inr AddressFamilyIPv6"
| "Family (domainAddress _) = Inr AddressFamilyDomain"
| "Family nilAddress = Inl Panic"

text \<open>
  \<open>net.IPAddress\<close> of the framework, modelled from its behaviour: four bytes are an
  IPv4 address; sixteen bytes are an IPv6 address, except that an IPv4-mapped address
  (ten zero bytes, then \<open>0xff 0xff\<close>) is turned into the IPv4 address of its last four
  bytes; any other length is logged and gives nil.
\<close>

definition IPAddress :: "byte list \<Rightarrow> Address" where
  "IPAddress ip =
     (if length ip = 4 then ipv4Address ip
      else if length ip = 16 then
        (if take 10 ip = [0, 0, 0, 0, 0, 0, 0, 0, 0, 0] \<and> ip ! 10 = 0xFF \<and> ip ! 11 = 0xFF
         then ipv4Address (take 4 (drop 12 ip))
         else ipv6Address ip)
      else nilAddress)"

definition DomainAddress :: "byte list \<Rightarrow> Address" where
  "DomainAddress domain = domainAddress domain"

record Destination =
  Address :: Address
  Port :: "16 word"
  Network :: Network

definition TCPDestination :: "Address \<Rightarrow> 16 word \<Rightarrow> Destination" where
  "TCPDestination a p = \<lparr>Address = a, Port = p, Network = Network_TCP\<rparr>"

text \<open>\<open>net.PortFromBytes\<close>: the big-endian 16-bit value of \<open>b[0]\<close>, \<open>b[1]\<close>.\<close>

definition PortFromBytes :: "byte list \<Rightarrow> error + 16 word" where
  "PortFromBytes b =
     (case index b 0 of Inl e \<Rightarrow> Inl e | Inr b0 \<Rightarrow>
       (case index b 1 of Inl e \<Rightarrow> Inl e | Inr b1 \<Rightarrow>
          Inr (push_bit 8 (ucast b0) OR ucast b1)))"

definition parseDestination :: "byte list \<Rightarrow> error + Destination" where
  "parseDestination data =
     (if length data < 3 then Inl DestinationDataTooShort
      else (case index data 0 of Inl e \<Rightarrow> Inl e | Inr addrType \<Rightarrow>
        if addrType = 1 then
          (if length data < 7 then Inl InvalidIPv4Address
           else (case slice data 1 5 of Inl e \<Rightarrow> Inl e | Inr a \<Rightarrow>
                (case slice data 5 7 of Inl e \<Rightarrow> Inl e | Inr pb \<Rightarrow>
                (case PortFromBytes pb of Inl e \<Rightarrow> Inl e | Inr port \<Rightarrow>
                  Inr (TCPDestination (IPAddress a) port)))))
        else if addrType = 2 then
          (if length data < 19 then Inl InvalidIPv6Address
           else (case slice data 1 17 of Inl e \<Rightarrow> Inl e | Inr a \<Rightarrow>
                (case slice data 17 19 of Inl e \<Rightarrow> Inl e | Inr pb \<Rightarrow>
                (case PortFromBytes pb of Inl e \<Rightarrow> Inl e | Inr port \<Rightarrow>
                  Inr (TCPDestination (IPAddress a) port)))))
        else if addrType = 3 then
          (if length data < 2 then Inl InvalidDomainNameLength
           else (case index data 1 of Inl e \<Rightarrow> Inl e | Inr dl \<Rightarrow>
             (let domainLen = unat dl in
              if length data < 4 + domainLen then Inl InvalidDomainName
              else (case slice data 2 (2 + domainLen) of Inl e \<Rightarrow> Inl e | Inr domain \<Rightarrow>
                   (case slice data (2 + domainLen) (4 + domainLen) of Inl e \<Rightarrow> Inl e | Inr pb \<Rightarrow>
                   (case PortFromBytes pb of Inl e \<Rightarrow> Inl e | Inr port \<Rightarrow>
                     Inr (TCPDestination (DomainAddress domain) port)))))))
        else Inl UnknownAddressType))"

definition getDestinationLength :: "byte list \<Rightarrow> error + nat" where
  "getDestinationLength data =
     (if length data < 1 then Inr 0
      else (case index data 0 of Inl e \<Rightarrow> Inl e | Inr addrType \<Rightarrow>
        if addrType = 1 then Inr 7
        else if addrType = 2 then Inr 19
        else if addrType = 3 then
          (if length data < 2 then Inr 0
           else (case index data 1 of Inl e \<Rightarrow> Inl e | Inr dl \<Rightarrow> Inr (4 + unat dl)))
        else Inr 0))"

text \<open>The sixteen address bytes of a type-2 input are an IPv4-mapped address.\<close>

definition ipv4_mapped :: "byte list \<Rightarrow> bool" where
  "ipv4_mapped data \<longleftrightarrow>
     take 10 (drop 1 data) = [0, 0, 0, 0, 0, 0, 0, 0, 0, 0] \<and> data ! 11 = 0xFF \<and> data ! 12 = 0xFF"

section \<open>Byte order (encoding/binary, big-endian)\<close>

definition Uint16 :: "byte list \<Rightarrow> error + 16 word" where
  "Uint16 b =
     (case index b 0 of Inl e \<Rightarrow> Inl e | Inr b0 \<Rightarrow>
       (case index b 1 of Inl e \<Rightarrow> Inl e | Inr b1 \<Rightarrow>
          Inr (push_bit 8 (ucast b0) OR ucast b1)))"

definition PutUint16 :: "16 word \<Rightarrow> byte list" where
  "PutUint16 w = [ucast (drop_bit 8 w), ucast w]"

definition Uint32 :: "byte list \<Rightarrow> error + 32 word" where
  "Uint32 b =
     (case index b 0 of Inl e \<Rightarrow> Inl e | Inr b0 \<Rightarrow>
       (case index b 1 of Inl e \<Rightarrow> Inl e | Inr b1 \<Rightarrow>
         (case index b 2 of Inl e \<Rightarrow> Inl e | Inr b2 \<Rightarrow>
           (case index b 3 of Inl e \<Rightarrow> Inl e | Inr b3 \<Rightarrow>
              Inr (push_bit 24 (ucast b0) OR push_bit 16 (ucast b1)
                     OR push_bit 8 (ucast b2) OR ucast b3)))))"

definition PutUint64 :: "64 word \<Rightarrow> byte list" where
  "PutUint64 w =
     [ucast (drop_bit 56 w), ucast (drop_bit 48 w), ucast (drop_bit 40 w), ucast (drop_bit 32 w),
      ucast (drop_bit 24 w), ucast (drop_bit 16 w), ucast (drop_bit 8 w), ucast w]"

text \<open>The inverse of \<open>PutUint64\<close> on eight bytes; used to show that nonces are distinct.\<close>

definition Uint64 :: "byte list \<Rightarrow> 64 word" where
  "Uint64 b =
     push_bit 56 (ucast (b ! 0)) OR push_bit 48 (ucast (b ! 1)) OR push_bit 40 (ucast (b ! 2))
     OR push_bit 32 (ucast (b ! 3)) OR push_bit 24 (ucast (b ! 4)) OR push_bit 16 (ucast (b ! 5))
     OR push_bit 8 (ucast (b ! 6)) OR ucast (b ! 7)"

section \<open>Connections, readers and the AEAD\<close>

text \<open>
  An \<open>io.Reader\<close> is the sequence of bytes it will still deliver before it reports
  \<open>io.EOF\<close>. \<open>ReadFull r n\<close> is \<open>io.ReadFull\<close> into a buffer of \<open>n\<close> bytes: no bytes
  at all is \<open>EOF\<close>, fewer than \<open>n\<close> is \<open>ErrUnexpectedEOF\<close>, and a buffer of length 0 is
  filled without reading. The first component is the reader afterwards.
\<close>

definition ReadFull :: "byte list \<Rightarrow> nat \<Rightarrow> byte list \<times> (error + byte list)" where
  "ReadFull r n =
     (if n = 0 then (r, Inr [])
      else if r = [] then ([], Inl EOF)
      else if length r < n then ([], Inl ErrUnexpectedEOF)
      else (drop n r, Inr (take n r)))"

text \<open>
  An \<open>io.Writer\<close> / connection: the bytes written so far, and how many further calls of
  \<open>Write\<close> succeed before the peer is gone (\<open>None\<close>: all of them).
\<close>

record conn =
  sent :: "byte list"
  writes_left :: "nat option"

definition connWrite :: "conn \<Rightarrow> byte list \<Rightarrow> error + conn" where
  "connWrite c b =
     (case writes_left c of
        None \<Rightarrow> Inr (c\<lparr>sent := sent c @ b\<rparr>)
      | Some 0 \<Rightarrow> Inl IOError
      | Some (Suc k) \<Rightarrow> Inr (c\<lparr>sent := sent c @ b, writes_left := Some k\<rparr>))"

definition buffer :: conn where
  "buffer = \<lparr>sent = [], writes_left = None\<rparr>"

text \<open>
  The cipher (\<open>chacha20poly1305\<close>) is a library outside the repository. It enters the
  model as a pair of functions of key, nonce and text; \<open>Open\<close> returns \<open>None\<close> when
  authentication fails. What the codec relies on is stated as three contracts:
  opening what was sealed under the same key and nonce gives the plaintext back, the
  ciphertext is 16 bytes (the tag) longer than the plaintext, and a ciphertext accepted
  under one nonce is rejected under every other nonce.
\<close>

record aead =
  Seal :: "byte list \<Rightarrow> byte list \<Rightarrow> byte list \<Rightarrow> byte list"
  Open :: "byte list \<Rightarrow> byte list \<Rightarrow> byte list \<Rightarrow> byte list option"

definition aead_roundtrip :: "aead \<Rightarrow> bool" where
  "aead_roundtrip A \<longleftrightarrow>
     (\<forall>k n p. length k = 32 \<and> length n = 12 \<longrightarrow> Open A k n (Seal A k n p) = Some p)"

definition aead_overhead :: "aead \<Rightarrow> bool" where
  "aead_overhead A \<longleftrightarrow>
     (\<forall>k n p. length k = 32 \<and> length n = 12 \<longrightarrow> length (Seal A k n p) = length p + 16)"

definition aead_nonce_bound :: "aead \<Rightarrow> bool" where
  "aead_nonce_bound A \<longleftrightarrow>
     (\<forall>k n n' c. length k = 32 \<and> length n = 12 \<and> length n' = 12 \<and> n \<noteq> n'
         \<and> Open A k n c \<noteq> None \<longrightarrow> Open A k n' c = None)"

text \<open>
  A small cipher that meets the three contracts, to show that they can be met together:
  the body is the plaintext xored with a key byte, the tag is the nonce followed by
  key bytes, cut to 16 bytes.
\<close>

definition toy_mask :: "byte list \<Rightarrow> byte" where
  "toy_mask k = foldr (XOR) k 0"

definition toy_tag :: "byte list \<Rightarrow> byte list \<Rightarrow> byte list" where
  "toy_tag k n = take 16 (n @ replicate 16 (toy_mask k))"

definition toy_seal :: "byte list \<Rightarrow> byte list \<Rightarrow> byte list \<Rightarrow> byte list" where
  "toy_seal k n p = map (\<lambda>b. b XOR toy_mask k) p @ toy_tag k n"

definition toy_open :: "byte list \<Rightarrow> byte list \<Rightarrow> byte list \<Rightarrow> byte list option" where
  "toy_open k n c =
     (if length c < 16 then None
      else if drop (length c - 16) c = toy_tag k n
        then Some (map (\<lambda>b. b XOR toy_mask k) (take (length c - 16) c))
        else None)"

definition toy_aead :: aead where
  "toy_aead = \<lparr>Seal = toy_seal, Open = toy_open\<rparr>"

section \<open>Traffic profile (morphing.go)\<close>

text \<open>
  Go's \<open>int\<close> and \<open>time.Duration\<close> are 64-bit; the sizes and delays here stay far from
  the bounds and are modelled as integers. The \<open>float64\<close> weights and the draw of
  \<open>math/rand.Float64\<close> are modelled as exact rationals, so the rounding of the
  cumulative sum is left out.
\<close>

record PacketSizeDist =
  Size :: int
  Weight :: rat

record DelayDist =
  Delay :: int
  DelayWeight :: rat

record TrafficProfile =
  Name :: string
  PacketSizes :: "PacketSizeDist list"
  Delays :: "DelayDist list"
  nextPacketSize :: int
  nextDelay :: int

section \<open>Frame codec (session.go)\<close>

definition FrameTypeData :: byte where "FrameTypeData = 1"
definition FrameTypePadding :: byte where "FrameTypePadding = 2"
definition FrameTypeTiming :: byte where "FrameTypeTiming = 3"
definition FrameTypeClose :: byte where "FrameTypeClose = 4"

record Frame =
  Length :: "16 word"
  Type :: byte
  Payload :: "byte list"

text \<open>
  The two mutexes of the Go struct guard the counters against concurrent use of one
  direction; the model is sequential and has no counterpart for them. The cipher
  instance that the Go session holds is the cipher applied to the session's key.
\<close>

record Session =
  key :: "byte list"
  readNonce :: "64 word"
  writeNonce :: "64 word"
  profile :: "TrafficProfile option"
  morphingEnabled :: bool

definition NewSession :: "byte list \<Rightarrow> error + Session" where
  "NewSession sessionKey =
     (if length sessionKey \<noteq> 32 then Inl SessionKeyMustBe32Bytes
      else Inr \<lparr>key = sessionKey, readNonce = 0, writeNonce = 0,
                profile = None, morphingEnabled = False\<rparr>)"

text \<open>The 12-byte nonce: four zero bytes, then the counter in big-endian.\<close>

definition nonce_of :: "64 word \<Rightarrow> byte list" where
  "nonce_of ctr = [0, 0, 0, 0] @ PutUint64 ctr"

definition ReadFrame :: "aead \<Rightarrow> Session \<Rightarrow> byte list \<Rightarrow> Session \<times> byte list \<times> (error + Frame)" where
  "ReadFrame A s reader =
     (case ReadFull reader 3 of
        (r1, Inl e) \<Rightarrow> (s, r1, Inl e)
      | (r1, Inr header) \<Rightarrow>
         (case slice header 0 2 of Inl e \<Rightarrow> (s, r1, Inl e) | Inr lb \<Rightarrow>
         (case Uint16 lb of Inl e \<Rightarrow> (s, r1, Inl e) | Inr len \<Rightarrow>
         (case index header 2 of Inl e \<Rightarrow> (s, r1, Inl e) | Inr frameType \<Rightarrow>
            if frameType \<noteq> FrameTypeData \<and> frameType \<noteq> FrameTypePadding \<and>
               frameType \<noteq> FrameTypeTiming \<and> frameType \<noteq> FrameTypeClose
            then (s, r1, Inl (InvalidFrameType frameType))
            else
              (case ReadFull r1 (unat len) of
                 (r2, Inl e) \<Rightarrow> (s, r2, Inl e)
               | (r2, Inr encryptedPayload) \<Rightarrow>
                  (let nonce = nonce_of (readNonce s);
                       s' = s\<lparr>readNonce := readNonce s + 1\<rparr>
                   in (case Open A (key s) nonce encryptedPayload of
                         None \<Rightarrow> (s', r2, Inl DecryptionFailed)
                       | Some payload \<Rightarrow>
                           (s', r2, Inr \<lparr>Length = len, Type = frameType, Payload = payload\<rparr>))))))))"

definition WriteFrame :: "aead \<Rightarrow> Session \<Rightarrow> conn \<Rightarrow> byte \<Rightarrow> byte list \<Rightarrow> Session \<times> conn \<times> error option" where
  "WriteFrame A s writer frameType data =
     (let nonce = nonce_of (writeNonce s);
          s' = s\<lparr>writeNonce := writeNonce s + 1\<rparr>;
          encrypted = Seal A (key s) nonce data
      in if length encrypted > 65535 then (s', writer, Some EncryptedFrameTooLarge)
         else
           (let header = PutUint16 (of_nat (length encrypted)) @ [frameType]
            in (case connWrite writer header of
                  Inl e \<Rightarrow> (s', writer, Some e)
                | Inr w1 \<Rightarrow>
                   (case connWrite w1 encrypted of
                      Inl e \<Rightarrow> (s', w1, Some e)
                    | Inr w2 \<Rightarrow> (s', w2, None)))))"

text \<open>
  Drivers for sequences of calls: write the frames of a list in order, and read a given
  number of frames, both stopping at the first error as a caller's loop does.
\<close>

fun write_frames :: "aead \<Rightarrow> Session \<Rightarrow> conn \<Rightarrow> (byte \<times> byte list) list \<Rightarrow> Session \<times> conn \<times> error option" where
  "write_frames A s w [] = (s, w, None)"
| "write_frames A s w ((t, p) # fs) =
     (case WriteFrame A s w t p of
        (s', w', Some e) \<Rightarrow> (s', w', Some e)
      | (s', w', None) \<Rightarrow> write_frames A s' w' fs)"

fun read_frames :: "aead \<Rightarrow> Session \<Rightarrow> byte list \<Rightarrow> nat \<Rightarrow> Session \<times> byte list \<times> (error + Frame list)" where
  "read_frames A s r 0 = (s, r, Inr [])"
| "read_frames A s r (Suc n) =
     (case ReadFrame A s r of
        (s', r', Inl e) \<Rightarrow> (s', r', Inl e)
      | (s', r', Inr f) \<Rightarrow>
         (case read_frames A s' r' n of
            (s'', r'', Inl e) \<Rightarrow> (s'', r'', Inl e)
          | (s'', r'', Inr fs) \<Rightarrow> (s'', r'', Inr (f # fs))))"

text \<open>The wire form of frame number \<open>i\<close> of a session with key \<open>k\<close>.\<close>

definition wire_frame :: "aead \<Rightarrow> byte list \<Rightarrow> nat \<Rightarrow> byte \<Rightarrow> byte list \<Rightarrow> byte list" where
  "wire_frame A k i t p =
     (let c = Seal A k (nonce_of (of_nat i)) p
      in PutUint16 (of_nat (length c)) @ [t] @ c)"

section \<open>Properties of the destination parser\<close>

lemma unat_ucast_byte16: "unat (ucast (a :: byte) :: 16 word) = unat a"
  by transfer simp

lemma be16_add:
  "push_bit 8 (ucast (a :: byte)) OR ucast (b :: byte) = (push_bit 8 (ucast a) + ucast b :: 16 word)"
  by (rule disjunctive_add[symmetric]) (auto simp: bit_simps dest: bit_imp_le_length)

lemma unat_be16:
  "unat (push_bit 8 (ucast (a :: byte)) OR ucast (b :: byte) :: 16 word) = 256 * unat a + unat b"
proof -
  have a: "unat a < 256" using unsigned_less[of a, where ?'a=nat] by simp
  have b: "unat b < 256" using unsigned_less[of b, where ?'a=nat] by simp
  have "unat (push_bit 8 (ucast a) + ucast b :: 16 word) = (256 * unat a + unat b) mod 65536"
    by (simp add: push_bit_eq_mult unat_word_ariths unat_ucast_byte16 mod_simps mult.commute)
  then show ?thesis using a b by (simp add: be16_add)
qed

lemma PortFromBytes_slice:
  "lo + 2 \<le> length data \<Longrightarrow>
   PortFromBytes (take 2 (drop lo data)) =
     Inr (push_bit 8 (ucast (data ! lo)) OR ucast (data ! (lo + 1)))"
  by (simp add: PortFromBytes_def index_def)

lemma parse_ipv4:
  assumes "7 \<le> length data" "data ! 0 = 1"
  shows "parseDestination data =
      Inr (TCPDestination (ipv4Address (take 4 (drop 1 data)))
             (push_bit 8 (ucast (data ! 5)) OR ucast (data ! 6)))"
  using assms PortFromBytes_slice[of 5 data]
  by (auto simp add: parseDestination_def index_def slice_def IPAddress_def)

lemma parse_ipv6_raw:
  assumes "19 \<le> length data" "data ! 0 = 2"
  shows "parseDestination data =
      Inr (TCPDestination (IPAddress (take 16 (drop 1 data)))
             (push_bit 8 (ucast (data ! 17)) OR ucast (data ! 18)))"
  using assms PortFromBytes_slice[of 17 data]
  by (auto simp add: parseDestination_def index_def slice_def)

lemma IPAddress_type2:
  assumes "19 \<le> length data"
  shows "IPAddress (take 16 (drop 1 data)) =
     (if ipv4_mapped data then ipv4Address (take 4 (drop 13 data))
      else ipv6Address (take 16 (drop 1 data)))"
  using assms by (simp add: IPAddress_def ipv4_mapped_def min_def take_drop add.commute)

lemma parse_domain:
  assumes "4 + unat (data ! 1) \<le> length data" "data ! 0 = 3"
  shows "parseDestination data =
      Inr (TCPDestination (domainAddress (take (unat (data ! 1)) (drop 2 data)))
             (push_bit 8 (ucast (data ! (2 + unat (data ! 1))))
                OR ucast (data ! (3 + unat (data ! 1)))))"
  using assms PortFromBytes_slice[of "2 + unat (data ! 1)" data]
  by (auto simp add: parseDestination_def index_def slice_def Let_def numeral_3_eq_3
        DomainAddress_def)

lemma parse_no_panic: "parseDestination data \<noteq> Inl Panic"
  by (auto simp: parseDestination_def index_def slice_def Let_def PortFromBytes_def
           split: sum.splits if_splits)

lemma getlen_no_panic: "getDestinationLength data \<noteq> Inl Panic"
  by (auto simp: getDestinationLength_def index_def split: sum.splits if_splits)

lemma parse_rejects_other_type:
  "data = [] \<or> data ! 0 \<notin> {1, 2, 3} \<Longrightarrow> isl (parseDestination data)"
  by (auto simp: parseDestination_def index_def)

lemma parse_rejects_truncated:
  assumes "data \<noteq> []"
    and "data ! 0 = 1 \<and> length data < 7 \<or> data ! 0 = 2 \<and> length data < 19
         \<or> data ! 0 = 3 \<and> (length data < 2 \<or> length data < 4 + unat (data ! 1))"
  shows "isl (parseDestination data)"
  using assms by (auto simp: parseDestination_def index_def Let_def)

text \<open>
  The claim that every type-2 input of at least 19 bytes decodes to an IPv6 destination
  fails on an IPv4-mapped address: \<open>net.IPAddress\<close> returns the IPv4 address
  \<open>1.2.3.4\<close> for the sixteen bytes \<open>::ffff:1.2.3.4\<close>.
\<close>

theorem parseDestination_type2_mapped_counterexample:
  "19 \<le> length [2 :: byte, 0, 0, 0, 0, 0, 0, 0, 0, 0, 0, 255, 255, 1, 2, 3, 4, 0, 80]
   \<and> [2 :: byte, 0, 0, 0, 0, 0, 0, 0, 0, 0, 0, 255, 255, 1, 2, 3, 4, 0, 80] ! 0 = 2
   \<and> parseDestination [2, 0, 0, 0, 0, 0, 0, 0, 0, 0, 0, 255, 255, 1, 2, 3, 4, 0, 80] =
       Inr \<lparr>Address = ipv4Address [1, 2, 3, 4], Port = 80, Network = Network_TCP\<rparr>
   \<and> Family (ipv4Address [1, 2, 3, 4]) = Inr AddressFamilyIPv4
   \<and> Family (ipv4Address [1, 2, 3, 4]) \<noteq> Inr AddressFamilyIPv6"
  by (simp add: parseDestination_def index_def slice_def IPAddress_def PortFromBytes_def
        TCPDestination_def)

text \<open>
  C7 (amended). \<open>parseDestination\<close> decodes a type-1 input of at least 7 bytes to the
  IPv4 address \<open>data[1:5]\<close> with the big-endian port \<open>data[5:7]\<close>; a type-2 input of at
  least 19 bytes to the IPv6 address \<open>data[1:17]\<close> with port \<open>data[17:19]\<close>, except that
  an IPv4-mapped address (ten zero bytes, then \<open>0xff 0xff\<close>) decodes to the IPv4 address
  \<open>data[13:17]\<close>; and a type-3 input of at least \<open>4 + data[1]\<close> bytes to the domain
  \<open>data[2 : 2 + data[1]]\<close> with the port that follows it. On these inputs
  \<open>getDestinationLength\<close> returns 7, 19 and \<open>4 + data[1]\<close>. The empty input, every other
  type byte and every truncated input give an error, and neither function ever panics.
\<close>

theorem parseDestination_decodes:
  fixes data :: "byte list"
  shows
  "(7 \<le> length data \<and> data ! 0 = 1 \<longrightarrow>
      (\<exists>d. parseDestination data = Inr d
         \<and> Address d = ipv4Address (take 4 (drop 1 data))
         \<and> Family (Address d) = Inr AddressFamilyIPv4
         \<and> unat (Port d) = 256 * unat (data ! 5) + unat (data ! 6)
         \<and> Network d = Network_TCP)
      \<and> getDestinationLength data = Inr 7)
   \<and> (19 \<le> length data \<and> data ! 0 = 2 \<longrightarrow>
      (\<exists>d. parseDestination data = Inr d
         \<and> (if ipv4_mapped data
              then Address d = ipv4Address (take 4 (drop 13 data))
                   \<and> Family (Address d) = Inr AddressFamilyIPv4
              else Address d = ipv6Address (take 16 (drop 1 data))
                   \<and> Family (Address d) = Inr AddressFamilyIPv6)
         \<and> unat (Port d) = 256 * unat (data ! 17) + unat (data ! 18)
         \<and> Network d = Network_TCP)
      \<and> getDestinationLength data = Inr 19)
   \<and> (4 + unat (data ! 1) \<le> length data \<and> data ! 0 = 3 \<longrightarrow>
      (\<exists>d. parseDestination data = Inr d
         \<and> Address d = domainAddress (take (unat (data ! 1)) (drop 2 data))
         \<and> Family (Address d) = Inr AddressFamilyDomain
         \<and> unat (Port d) = 256 * unat (data ! (2 + unat (data ! 1)))
                              + unat (data ! (3 + unat (data ! 1)))
         \<and> Network d = Network_TCP)
      \<and> getDestinationLength data = Inr (4 + unat (data ! 1)))
   \<and> (data = [] \<or> data ! 0 \<notin> {1, 2, 3} \<longrightarrow> isl (parseDestination data))
   \<and> (data \<noteq> [] \<and>
        (data ! 0 = 1 \<and> length data < 7 \<or> data ! 0 = 2 \<and> length data < 19
         \<or> data ! 0 = 3 \<and> (length data < 2 \<or> length data < 4 + unat (data ! 1)))
       \<longrightarrow> isl (parseDestination data))
   \<and> parseDestination data \<noteq> Inl Panic
   \<and> getDestinationLength data \<noteq> Inl Panic"
proof (intro conjI impI)
  assume h: "7 \<le> length data \<and> data ! 0 = 1"
  then show "\<exists>d. parseDestination data = Inr d
         \<and> Address d = ipv4Address (take 4 (drop 1 data))
         \<and> Family (Address d) = Inr AddressFamilyIPv4
         \<and> unat (Port d) = 256 * unat (data ! 5) + unat (data ! 6)
         \<and> Network d = Network_TCP"
    using parse_ipv4[of data] unat_be16[of "data ! 5" "data ! 6"]
    by (simp add: TCPDestination_def)
  from h show "getDestinationLength data = Inr 7"
    by (auto simp: getDestinationLength_def index_def)
next
  assume h: "19 \<le> length data \<and> data ! 0 = 2"
  then show "\<exists>d. parseDestination data = Inr d
         \<and> (if ipv4_mapped data
              then Address d = ipv4Address (take 4 (drop 13 data))
                   \<and> Family (Address d) = Inr AddressFamilyIPv4
              else Address d = ipv6Address (take 16 (drop 1 data))
                   \<and> Family (Address d) = Inr AddressFamilyIPv6)
         \<and> unat (Port d) = 256 * unat (data ! 17) + unat (data ! 18)
         \<and> Network d = Network_TCP"
    using parse_ipv6_raw[of data] IPAddress_type2[of data] unat_be16[of "data ! 17" "data ! 18"]
    by (simp add: TCPDestination_def)
  from h show "getDestinationLength data = Inr 19"
    by (auto simp: getDestinationLength_def index_def)
next
  assume h: "4 + unat (data ! 1) \<le> length data \<and> data ! 0 = 3"
  then show "\<exists>d. parseDestination data = Inr d
         \<and> Address d = domainAddress (take (unat (data ! 1)) (drop 2 data))
         \<and> Family (Address d) = Inr AddressFamilyDomain
         \<and> unat (Port d) = 256 * unat (data ! (2 + unat (data ! 1)))
                              + unat (data ! (3 + unat (data ! 1)))
         \<and> Network d = Network_TCP"
    using parse_domain[of data]
      unat_be16[of "data ! (2 + unat (data ! 1))" "data ! (3 + unat (data ! 1))"]
    by (simp add: TCPDestination_def)
  from h show "getDestinationLength data = Inr (4 + unat (data ! 1))"
    by (auto simp: getDestinationLength_def index_def)
next
  assume "data = [] \<or> data ! 0 \<notin> {1, 2, 3}"
  then show "isl (parseDestination data)" by (rule parse_rejects_other_type)
next
  assume "data \<noteq> [] \<and>
        (data ! 0 = 1 \<and> length data < 7 \<or> data ! 0 = 2 \<and> length data < 19
         \<or> data ! 0 = 3 \<and> (length data < 2 \<or> length data < 4 + unat (data ! 1)))"
  then show "isl (parseDestination data)" using parse_rejects_truncated[of data] by blast
next
  show "parseDestination data \<noteq> Inl Panic" by (rule parse_no_panic)
  show "getDestinationLength data \<noteq> Inl Panic" by (rule getlen_no_panic)
qed

theorem parseDestination_decodes_witness:
  "((\<exists>d. parseDestination [1, 127, 0, 0, 1, 0, 80] = Inr d
        \<and> Address d = ipv4Address [127, 0, 0, 1]
        \<and> Family (Address d) = Inr AddressFamilyIPv4
        \<and> unat (Port d) = 80 \<and> Network d = Network_TCP)
     \<and> getDestinationLength [1, 127, 0, 0, 1, 0, 80] = Inr 7)
   \<and> ((\<exists>d. parseDestination
               [2, 32, 1, 13, 184, 0, 0, 0, 0, 0, 0, 0, 0, 0, 0, 0, 1, 0, 80] = Inr d
        \<and> Address d = ipv6Address [32, 1, 13, 184, 0, 0, 0, 0, 0, 0, 0, 0, 0, 0, 0, 1]
        \<and> Family (Address d) = Inr AddressFamilyIPv6
        \<and> unat (Port d) = 80 \<and> Network d = Network_TCP)
     \<and> getDestinationLength
          [2, 32, 1, 13, 184, 0, 0, 0, 0, 0, 0, 0, 0, 0, 0, 0, 1, 0, 80] = Inr 19)
   \<and> ((\<exists>d. parseDestination
               [2, 0, 0, 0, 0, 0, 0, 0, 0, 0, 0, 255, 255, 1, 2, 3, 4, 0, 80] = Inr d
        \<and> Address d = ipv4Address [1, 2, 3, 4]
        \<and> Family (Address d) = Inr AddressFamilyIPv4
        \<and> unat (Port d) = 80 \<and> Network d = Network_TCP)
     \<and> getDestinationLength
          [2, 0, 0, 0, 0, 0, 0, 0, 0, 0, 0, 255, 255, 1, 2, 3, 4, 0, 80] = Inr 19)
   \<and> ((\<exists>d. parseDestination [3, 3, 97, 98, 99, 1, 187, 72, 105] = Inr d
        \<and> Address d = domainAddress [97, 98, 99]
        \<and> Family (Address d) = Inr AddressFamilyDomain
        \<and> unat (Port d) = 443 \<and> Network d = Network_TCP)
     \<and> getDestinationLength [3, 3, 97, 98, 99, 1, 187, 72, 105] = Inr 7)
   \<and> isl (parseDestination [255, 0, 0, 0])
   \<and> isl (parseDestination [1, 127, 0, 0, 1, 0])
   \<and> isl (parseDestination [2, 0, 0, 0, 0, 0, 0, 0, 0, 0, 0, 255, 255, 1, 2, 3, 4, 0])"
  using parseDestination_decodes[of "[1, 127, 0, 0, 1, 0, 80]"]
    parseDestination_decodes[of "[2, 32, 1, 13, 184, 0, 0, 0, 0, 0, 0, 0, 0, 0, 0, 0, 1, 0, 80]"]
    parseDestination_decodes[of "[2, 0, 0, 0, 0, 0, 0, 0, 0, 0, 0, 255, 255, 1, 2, 3, 4, 0, 80]"]
    parseDestination_decodes[of "[3, 3, 97, 98, 99, 1, 187, 72, 105]"]
    parseDestination_decodes[of "[255, 0, 0, 0]"]
    parseDestination_decodes[of "[1, 127, 0, 0, 1, 0]"]
    parseDestination_decodes[of "[2, 0, 0, 0, 0, 0, 0, 0, 0, 0, 0, 255, 255, 1, 2, 3, 4, 0]"]
  by (simp add: ipv4_mapped_def)

end
